theory Spec2Isabelle
  imports Main "HOL-Library.Word"
begin

section \<open>The OCaml bindings to the MySQL client library (mysql_stubs.c)\<close>

text \<open>
  The stubs are C functions called from OCaml. Each one is embedded as a HOL function
  of the same name. What the C code reads from the MySQL client library (return codes,
  error texts, counts) is an argument of the embedding, what it raises is a value of
  type \<open>exn\<close> on the left of a sum, and what it does to the native session, to the
  malloc heap or to the OCaml heap is a state that is passed along and returned.
\<close>

subsection \<open>Exceptions\<close>

text \<open>
  \<open>mysqlfailwith\<close> and \<open>mysqlfailmsg\<close> raise the exception registered under the
  name "mysql error" with a message; \<open>invalid_argument\<close> raises OCaml's
  \<open>Invalid_argument\<close>. \<open>mysqlfailmsg\<close> formats into a buffer of 1024 bytes with
  \<open>vsnprintf\<close>, which keeps at most 1023 characters; the callers' format strings
  are written out as concatenations.
\<close>

datatype exn = Mysql_error string | Invalid_argument string

definition mysqlfailwith :: "string \<Rightarrow> exn" where
  "mysqlfailwith err = Mysql_error err"

definition mysqlfailmsg :: "string \<Rightarrow> exn" where
  "mysqlfailmsg formatted = Mysql_error (take 1023 formatted)"

definition invalid_argument :: "string \<Rightarrow> exn" where
  "invalid_argument msg = Invalid_argument msg"

subsection \<open>type2dbty: column types\<close>

text \<open>
  The tags \<open>INT_TY\<close> ... \<open>DECIMAL_TY\<close> are the \<open>#define\<close>s of the source; the
  function returns \<open>Val_long\<close> of one of them, here the number itself.
\<close>

definition INT_TY :: nat where "INT_TY = 0"
definition FLOAT_TY :: nat where "FLOAT_TY = 1"
definition STRING_TY :: nat where "STRING_TY = 2"
definition SET_TY :: nat where "SET_TY = 3"
definition ENUM_TY :: nat where "ENUM_TY = 4"
definition DATETIME_TY :: nat where "DATETIME_TY = 5"
definition DATE_TY :: nat where "DATE_TY = 6"
definition TIME_TY :: nat where "TIME_TY = 7"
definition YEAR_TY :: nat where "YEAR_TY = 8"
definition TIMESTAMP_TY :: nat where "TIMESTAMP_TY = 9"
definition UNKNOWN_TY :: nat where "UNKNOWN_TY = 10"
definition INT64_TY :: nat where "INT64_TY = 11"
definition BLOB_TY :: nat where "BLOB_TY = 12"
definition DECIMAL_TY :: nat where "DECIMAL_TY = 13"

text \<open>
  The wire codes \<open>FIELD_TYPE_*\<close> come from the MySQL header \<open>mysql_com.h\<close>, which
  is not part of the repository. Their names are the constructors of \<open>field_type\<close>;
  their numeric values are a parameter \<open>wire :: field_type \<Rightarrow> int\<close> of the table.
  \<open>mysql_com_h\<close> gives the values of the MySQL headers and serves as the instance.
\<close>

datatype field_type =
    FIELD_TYPE_DECIMAL | FIELD_TYPE_TINY | FIELD_TYPE_SHORT | FIELD_TYPE_LONG
  | FIELD_TYPE_FLOAT | FIELD_TYPE_DOUBLE | FIELD_TYPE_NULL | FIELD_TYPE_TIMESTAMP
  | FIELD_TYPE_LONGLONG | FIELD_TYPE_INT24 | FIELD_TYPE_DATE | FIELD_TYPE_TIME
  | FIELD_TYPE_DATETIME | FIELD_TYPE_YEAR | FIELD_TYPE_NEWDATE | FIELD_TYPE_ENUM
  | FIELD_TYPE_SET | FIELD_TYPE_TINY_BLOB | FIELD_TYPE_MEDIUM_BLOB
  | FIELD_TYPE_LONG_BLOB | FIELD_TYPE_BLOB | FIELD_TYPE_VAR_STRING | FIELD_TYPE_STRING

fun mysql_com_h :: "field_type \<Rightarrow> int" where
  "mysql_com_h FIELD_TYPE_DECIMAL = 0"
| "mysql_com_h FIELD_TYPE_TINY = 1"
| "mysql_com_h FIELD_TYPE_SHORT = 2"
| "mysql_com_h FIELD_TYPE_LONG = 3"
| "mysql_com_h FIELD_TYPE_FLOAT = 4"
| "mysql_com_h FIELD_TYPE_DOUBLE = 5"
| "mysql_com_h FIELD_TYPE_NULL = 6"
| "mysql_com_h FIELD_TYPE_TIMESTAMP = 7"
| "mysql_com_h FIELD_TYPE_LONGLONG = 8"
| "mysql_com_h FIELD_TYPE_INT24 = 9"
| "mysql_com_h FIELD_TYPE_DATE = 10"
| "mysql_com_h FIELD_TYPE_TIME = 11"
| "mysql_com_h FIELD_TYPE_DATETIME = 12"
| "mysql_com_h FIELD_TYPE_YEAR = 13"
| "mysql_com_h FIELD_TYPE_NEWDATE = 14"
| "mysql_com_h FIELD_TYPE_ENUM = 247"
| "mysql_com_h FIELD_TYPE_SET = 248"
| "mysql_com_h FIELD_TYPE_TINY_BLOB = 249"
| "mysql_com_h FIELD_TYPE_MEDIUM_BLOB = 250"
| "mysql_com_h FIELD_TYPE_LONG_BLOB = 251"
| "mysql_com_h FIELD_TYPE_BLOB = 252"
| "mysql_com_h FIELD_TYPE_VAR_STRING = 253"
| "mysql_com_h FIELD_TYPE_STRING = 254"

text \<open>The static array \<open>map[]\<close> of \<open>type2dbty\<close>, with its sentinel entry last.\<close>

definition type_map :: "(field_type \<Rightarrow> int) \<Rightarrow> (int \<times> nat) list" where
  "type_map wire =
    [ (wire FIELD_TYPE_DECIMAL, DECIMAL_TY),
      (wire FIELD_TYPE_TINY, INT_TY),
      (wire FIELD_TYPE_SHORT, INT_TY),
      (wire FIELD_TYPE_LONG, INT_TY),
      (wire FIELD_TYPE_FLOAT, FLOAT_TY),
      (wire FIELD_TYPE_DOUBLE, FLOAT_TY),
      (wire FIELD_TYPE_NULL, STRING_TY),
      (wire FIELD_TYPE_TIMESTAMP, TIMESTAMP_TY),
      (wire FIELD_TYPE_LONGLONG, INT64_TY),
      (wire FIELD_TYPE_INT24, INT_TY),
      (wire FIELD_TYPE_DATE, DATE_TY),
      (wire FIELD_TYPE_TIME, TIME_TY),
      (wire FIELD_TYPE_DATETIME, DATETIME_TY),
      (wire FIELD_TYPE_YEAR, YEAR_TY),
      (wire FIELD_TYPE_NEWDATE, UNKNOWN_TY),
      (wire FIELD_TYPE_ENUM, ENUM_TY),
      (wire FIELD_TYPE_SET, SET_TY),
      (wire FIELD_TYPE_TINY_BLOB, BLOB_TY),
      (wire FIELD_TYPE_MEDIUM_BLOB, BLOB_TY),
      (wire FIELD_TYPE_LONG_BLOB, BLOB_TY),
      (wire FIELD_TYPE_BLOB, BLOB_TY),
      (wire FIELD_TYPE_VAR_STRING, STRING_TY),
      (wire FIELD_TYPE_STRING, STRING_TY),
      (- 1, UNKNOWN_TY) ]"

text \<open>
  The loop \<open>for (i=0; map[i].mysql != -1 && map[i].mysql != type; i++)\<close> followed by
  \<open>return map[i].caml\<close>. The list is what remains of the array from index \<open>i\<close> on;
  reading past its end, which C leaves undefined, is \<open>None\<close>.
\<close>

fun map_scan :: "(int \<times> nat) list \<Rightarrow> int \<Rightarrow> nat option" where
  "map_scan [] ty = None"
| "map_scan ((mysql, caml) # rest) ty =
    (if mysql \<noteq> - 1 \<and> mysql \<noteq> ty then map_scan rest ty else Some caml)"

definition type2dbty :: "(field_type \<Rightarrow> int) \<Rightarrow> int \<Rightarrow> nat option" where
  "type2dbty wire ty = map_scan (type_map wire) ty"

subsection \<open>What the stubs get from the client library\<close>

text \<open>
  A \<open>char*\<close> is a \<open>string option\<close>: \<open>None\<close> is the null pointer, \<open>Some s\<close> points at
  the characters \<open>s\<close> that precede the terminating NUL, so \<open>strlen\<close> is the length
  and the test of \<open>msg[0]\<close> against NUL says that \<open>s\<close> is empty. Column data of a row is a
  \<open>string option\<close> as well, the bytes of the column or the null pointer for SQL NULL.
\<close>

definition strlen :: "string \<Rightarrow> nat" where
  "strlen s = length s"

text \<open>
  \<open>MYSQL_RES\<close> is a stored (buffered) result of the client library: the number of
  columns, the rows in order, and the position of the row cursor. The five functions
  below are the library's, as its manual documents them for a stored result:
  \<open>mysql_fetch_row\<close> returns the row under the cursor and moves the cursor on, or
  returns NULL at the end; \<open>mysql_fetch_lengths\<close> gives the byte lengths of the
  columns of that row, 0 for NULL; \<open>mysql_data_seek\<close> walks to the row of the given
  number.
\<close>

record MYSQL_RES =
  field_count :: nat
  data :: "string option list list"
  data_cursor :: nat

definition mysql_num_rows :: "MYSQL_RES \<Rightarrow> 64 word" where
  "mysql_num_rows res = word_of_nat (length (data res))"

definition mysql_num_fields :: "MYSQL_RES \<Rightarrow> nat" where
  "mysql_num_fields res = field_count res"

definition mysql_fetch_row :: "MYSQL_RES \<Rightarrow> string option list option \<times> MYSQL_RES" where
  "mysql_fetch_row res =
    (if data_cursor res < length (data res)
     then (Some (data res ! data_cursor res), res\<lparr>data_cursor := Suc (data_cursor res)\<rparr>)
     else (None, res))"

definition mysql_fetch_lengths :: "string option list \<Rightarrow> nat list" where
  "mysql_fetch_lengths row = map (\<lambda>col. case col of None \<Rightarrow> 0 | Some s \<Rightarrow> length s) row"

definition mysql_data_seek :: "MYSQL_RES \<Rightarrow> 64 word \<Rightarrow> MYSQL_RES" where
  "mysql_data_seek res off = res\<lparr>data_cursor := min (unat off) (length (data res))\<rparr>"

text \<open>
  The answers of the session to the calls the connection stubs make. A return code is
  an \<open>int\<close> (or a \<open>bool\<close> for \<open>my_bool\<close>), non-zero meaning failure.
\<close>

record session =
  mysql_change_user_rc :: bool
  mysql_select_db_rc :: int
  mysql_ping_rc :: int
  mysql_real_query_rc :: int
  mysql_store_result_v :: "MYSQL_RES option"
  mysql_list_dbs_v :: "string list option"
  mysql_errno_v :: nat
  mysql_error_v :: "string option"
  mysql_affected_rows_v :: "64 word"
  mysql_insert_id_v :: "64 word"
  mysql_get_host_info_v :: string
  mysql_get_server_info_v :: string
  mysql_get_proto_info_v :: nat
  mysql_stmt_init_v :: "nat option"
  mysql_stmt_prepare_rc :: int

text \<open>
  The calls into the client library that take the session handle, each recorded with
  the handle it was given: the trace of a stub is the list of the calls it made.
\<close>

datatype api =
    Call_mysql_close | Call_mysql_change_user | Call_mysql_list_dbs | Call_mysql_select_db | Call_mysql_ping
  | Call_mysql_real_query | Call_mysql_store_result | Call_mysql_errno | Call_mysql_error
  | Call_mysql_affected_rows | Call_mysql_insert_id | Call_mysql_get_host_info
  | Call_mysql_get_server_info | Call_mysql_get_proto_info | Call_mysql_stmt_init | Call_mysql_stmt_prepare

type_synonym trace = "(api \<times> nat) list"

subsection \<open>Option values\<close>

text \<open>
  \<open>val_str_option\<close> copies \<open>length\<close> bytes from \<open>s\<close> into a fresh OCaml string
  and wraps it in \<open>Some\<close>; a null pointer gives \<open>None\<close>. \<open>fmt_s\<close> is what
  \<open>%s\<close> prints for a \<open>char*\<close>.
\<close>

definition val_str_option :: "string option \<Rightarrow> nat \<Rightarrow> string option" where
  "val_str_option s len = (case s of None \<Rightarrow> None | Some bytes \<Rightarrow> Some (take len bytes))"

definition fmt_s :: "string option \<Rightarrow> string" where
  "fmt_s s = (case s of None \<Rightarrow> ''(null)'' | Some m \<Rightarrow> m)"

subsection \<open>Connections\<close>

text \<open>
  The data base descriptor: field 1 holds the \<open>MYSQL*\<close> (as a machine word), field 2
  the open flag. \<open>Val_false\<close> is the word that \<open>db_disconnect\<close> stores into field 1.
\<close>

record dbd =
  DBDmysql :: nat
  DBDopen :: bool

definition Val_false :: nat where
  "Val_false = 1"

type_synonym 'a outcome = "(exn + 'a) \<times> dbd \<times> trace"

definition check_dbd :: "dbd \<Rightarrow> string \<Rightarrow> exn option" where
  "check_dbd d fn =
    (if \<not> DBDopen d
     then Some (mysqlfailmsg (''Mysql.'' @ fn @ '' called with closed connection''))
     else None)"

definition db_change_user :: "session \<Rightarrow> dbd \<Rightarrow> unit outcome" where
  "db_change_user n d =
    (case check_dbd d ''change_user'' of
       Some e \<Rightarrow> (Inl e, d, [])
     | None \<Rightarrow>
        if mysql_change_user_rc n
        then (Inl (mysqlfailmsg (''Mysql.change_user: '' @ fmt_s (mysql_error_v n))), d,
              [(Call_mysql_change_user, DBDmysql d), (Call_mysql_error, DBDmysql d)])
        else (Inr (), d, [(Call_mysql_change_user, DBDmysql d)]))"

text \<open>
  \<open>db_list_dbs\<close>: the result of \<open>mysql_list_dbs\<close> has one column, the name, so it
  is given as the list of names; the stub copies \<open>row[0]\<close> of every row.
\<close>

definition db_list_dbs :: "session \<Rightarrow> dbd \<Rightarrow> string list option outcome" where
  "db_list_dbs n d =
    (case mysql_list_dbs_v n of
       None \<Rightarrow> (Inr None, d, [(Call_mysql_list_dbs, DBDmysql d)])
     | Some names \<Rightarrow>
        if length names = 0 then (Inr None, d, [(Call_mysql_list_dbs, DBDmysql d)])
        else (Inr (Some names), d, [(Call_mysql_list_dbs, DBDmysql d)]))"

definition db_select_db :: "session \<Rightarrow> dbd \<Rightarrow> unit outcome" where
  "db_select_db n d =
    (case check_dbd d ''select_db'' of
       Some e \<Rightarrow> (Inl e, d, [])
     | None \<Rightarrow>
        if mysql_select_db_rc n \<noteq> 0
        then (Inl (mysqlfailmsg (''Mysql.select_db: '' @ fmt_s (mysql_error_v n))), d,
              [(Call_mysql_select_db, DBDmysql d), (Call_mysql_error, DBDmysql d)])
        else (Inr (), d, [(Call_mysql_select_db, DBDmysql d)]))"

definition db_disconnect :: "dbd \<Rightarrow> unit outcome" where
  "db_disconnect d =
    (case check_dbd d ''disconnect'' of
       Some e \<Rightarrow> (Inl e, d, [])
     | None \<Rightarrow>
        (Inr (), d\<lparr>DBDmysql := Val_false, DBDopen := False\<rparr>, [(Call_mysql_close, DBDmysql d)]))"

definition db_ping :: "session \<Rightarrow> dbd \<Rightarrow> unit outcome" where
  "db_ping n d =
    (case check_dbd d ''ping'' of
       Some e \<Rightarrow> (Inl e, d, [])
     | None \<Rightarrow>
        if mysql_ping_rc n \<noteq> 0
        then (Inl (mysqlfailmsg (''Mysql.ping: '' @ fmt_s (mysql_error_v n))), d,
              [(Call_mysql_ping, DBDmysql d), (Call_mysql_error, DBDmysql d)])
        else (Inr (), d, [(Call_mysql_ping, DBDmysql d)]))"

definition db_exec :: "session \<Rightarrow> dbd \<Rightarrow> MYSQL_RES option outcome" where
  "db_exec n d =
    (case check_dbd d ''exec'' of
       Some e \<Rightarrow> (Inl e, d, [])
     | None \<Rightarrow>
        if mysql_real_query_rc n \<noteq> 0
        then (Inl (mysqlfailmsg (''Mysql.exec: '' @ fmt_s (mysql_error_v n))), d,
              [(Call_mysql_real_query, DBDmysql d), (Call_mysql_error, DBDmysql d)])
        else (Inr (mysql_store_result_v n), d,
              [(Call_mysql_real_query, DBDmysql d), (Call_mysql_store_result, DBDmysql d)]))"

definition db_status :: "session \<Rightarrow> dbd \<Rightarrow> nat outcome" where
  "db_status n d =
    (case check_dbd d ''status'' of
       Some e \<Rightarrow> (Inl e, d, [])
     | None \<Rightarrow> (Inr (mysql_errno_v n), d, [(Call_mysql_errno, DBDmysql d)]))"

definition db_errmsg :: "session \<Rightarrow> dbd \<Rightarrow> string option outcome" where
  "db_errmsg n d =
    (case check_dbd d ''errmsg'' of
       Some e \<Rightarrow> (Inl e, d, [])
     | None \<Rightarrow>
        let msg = mysql_error_v n;
            msg = (if msg = None \<or> msg = Some [] then None else msg);
            s = val_str_option msg (case msg of None \<Rightarrow> 0 | Some m \<Rightarrow> strlen m)
        in (Inr s, d, [(Call_mysql_error, DBDmysql d)]))"

definition db_affected :: "session \<Rightarrow> dbd \<Rightarrow> 64 word outcome" where
  "db_affected n d = (Inr (mysql_affected_rows_v n), d, [(Call_mysql_affected_rows, DBDmysql d)])"

definition db_insert_id :: "session \<Rightarrow> dbd \<Rightarrow> 64 word outcome" where
  "db_insert_id n d = (Inr (mysql_insert_id_v n), d, [(Call_mysql_insert_id, DBDmysql d)])"

definition db_host_info :: "session \<Rightarrow> dbd \<Rightarrow> string outcome" where
  "db_host_info n d = (Inr (mysql_get_host_info_v n), d, [(Call_mysql_get_host_info, DBDmysql d)])"

definition db_server_info :: "session \<Rightarrow> dbd \<Rightarrow> string outcome" where
  "db_server_info n d =
    (Inr (mysql_get_server_info_v n), d, [(Call_mysql_get_server_info, DBDmysql d)])"

definition db_proto_info :: "session \<Rightarrow> dbd \<Rightarrow> nat outcome" where
  "db_proto_info n d =
    (Inr (mysql_get_proto_info_v n), d, [(Call_mysql_get_proto_info, DBDmysql d)])"

definition caml_mysql_stmt_prepare :: "session \<Rightarrow> dbd \<Rightarrow> nat outcome" where
  "caml_mysql_stmt_prepare n d =
    (case check_dbd d ''P.prepare'' of
       Some e \<Rightarrow> (Inl e, d, [])
     | None \<Rightarrow>
        (case mysql_stmt_init_v n of
           None \<Rightarrow> (Inl (mysqlfailwith ''P.prepare : mysql_stmt_init''), d,
                     [(Call_mysql_stmt_init, DBDmysql d)])
         | Some stmt \<Rightarrow>
            if mysql_stmt_prepare_rc n \<noteq> 0
            then (Inl (mysqlfailwith ''P.prepare : mysql_stmt_prepare''), d,
                  [(Call_mysql_stmt_init, DBDmysql d), (Call_mysql_stmt_prepare, stmt)])
            else (Inr stmt, d, [(Call_mysql_stmt_init, DBDmysql d), (Call_mysql_stmt_prepare, stmt)])))"

subsection \<open>Stored results\<close>

text \<open>
  \<open>RESval(result)\<close> is a \<open>MYSQL_RES*\<close> that may be null: a \<open>MYSQL_RES option\<close>.
  The stubs return what they raise or return, and the result with its cursor.
\<close>

definition db_fetch ::
  "MYSQL_RES option \<Rightarrow> (exn + string option list option) \<times> MYSQL_RES option" where
  "db_fetch result =
    (case result of
       None \<Rightarrow> (Inl (mysqlfailwith ''Mysql.fetch: result did not return fetchable data''), None)
     | Some res \<Rightarrow>
        let n = mysql_num_fields res in
        if n = 0 then (Inl (mysqlfailwith ''Mysql.fetch: no columns''), Some res)
        else
          (case mysql_fetch_row res of
             (None, res') \<Rightarrow> (Inr None, Some res')
           | (Some row, res') \<Rightarrow>
              let len = mysql_fetch_lengths row;
                  fields = map (\<lambda>i. val_str_option (row ! i) (len ! i)) [0..<n]
              in (Inr (Some fields), Some res')))"

text \<open>
  \<open>db_to_row\<close>: \<open>off\<close> is an \<open>int64\<close>; the row count is cast to \<open>int64\<close> before 1 is
  subtracted, and both comparisons are signed.
\<close>

definition db_to_row :: "MYSQL_RES option \<Rightarrow> 64 word \<Rightarrow> (exn + unit) \<times> MYSQL_RES option" where
  "db_to_row result off =
    (case result of
       None \<Rightarrow> (Inl (mysqlfailwith ''Mysql.to_row: result did not return fetchable data''), None)
     | Some res \<Rightarrow>
        if off <s 0 \<or> mysql_num_rows res - 1 <s off
        then (Inl (invalid_argument ''Mysql.to_row: offset out of range''), Some res)
        else (Inr (), Some (mysql_data_seek res off)))"

definition db_size :: "MYSQL_RES option \<Rightarrow> 64 word" where
  "db_size result = (case result of None \<Rightarrow> 0 | Some res \<Rightarrow> mysql_num_rows res)"

subsection \<open>Prepared statements: the row buffer\<close>

text \<open>
  An OCaml string lives in the OCaml heap and is known to C by its address. The heap is
  the list of the strings allocated so far, the address of a string its position. A byte
  is a \<open>char option\<close>: \<open>None\<close> is a byte that was never written, which is what
  \<open>caml_alloc_string\<close> returns. The collector is taken not to move a string while a
  stub runs.
\<close>

type_synonym bytes = "char option list"
type_synonym caml_heap = "bytes list"

definition caml_alloc_string :: "nat \<Rightarrow> caml_heap \<Rightarrow> nat \<times> caml_heap" where
  "caml_alloc_string len h = (length h, h @ [replicate len None])"

definition caml_string_length :: "caml_heap \<Rightarrow> nat \<Rightarrow> nat" where
  "caml_string_length h str = length (h ! str)"

text \<open>
  \<open>MYSQL_BIND\<close>, with the members the stubs set. \<open>buffer\<close> is the address of an
  OCaml string or null. The members \<open>length\<close>, \<open>is_null\<close> and \<open>error\<close> point
  into the arrays of the \<open>row_t\<close> the bind belongs to: a pointer \<open>&r->length[i]\<close>
  is \<open>Some i\<close>. \<open>calloc\<close> leaves every member zero.
\<close>

datatype buffer_ty = Zero_type | MYSQL_TYPE_STRING

record MYSQL_BIND =
  buffer_type :: buffer_ty
  buffer :: "nat option"
  buffer_length :: nat
  length_ptr :: "nat option"
  is_null_ptr :: "nat option"
  error_ptr :: "nat option"

definition zero_bind :: MYSQL_BIND where
  "zero_bind = \<lparr> buffer_type = Zero_type, buffer = None, buffer_length = 0,
                 length_ptr = None, is_null_ptr = None, error_ptr = None \<rparr>"

text \<open>\<open>row_t\<close>: the arrays \<open>length\<close>, \<open>error\<close> and \<open>is_null\<close> carry the suffix \<open>_arr\<close>.\<close>

record row_t =
  count :: nat
  stmt :: nat
  bind :: "MYSQL_BIND list"
  length_arr :: "nat list"
  error_arr :: "bool list"
  is_null_arr :: "bool list"

text \<open>
  The malloc heap holds the \<open>row_t\<close> blocks, each with its four arrays. \<open>malloc\<close>
  hands out the address \<open>brk\<close> and never the same address twice; whether a call fails
  is written in \<open>failures\<close>, one entry per call (\<open>True\<close>: this call returns NULL; no
  entry left: it succeeds). The stub does not test what \<open>calloc\<close> returns, so the arrays
  are taken to be there whenever the \<open>row_t\<close> is.
\<close>

record memory =
  blocks :: "nat \<rightharpoonup> row_t"
  brk :: nat
  failures :: "bool list"

definition malloc :: "memory \<Rightarrow> nat option \<times> memory" where
  "malloc m =
    (case failures m of
       True # later \<Rightarrow> (None, m\<lparr>failures := later\<rparr>)
     | False # later \<Rightarrow> (Some (brk m), m\<lparr>brk := Suc (brk m), failures := later\<rparr>)
     | [] \<Rightarrow> (Some (brk m), m\<lparr>brk := Suc (brk m)\<rparr>))"

definition create_row :: "nat \<Rightarrow> nat \<Rightarrow> memory \<Rightarrow> nat option \<times> memory" where
  "create_row st cnt m =
    (case malloc m of
       (None, m') \<Rightarrow> (None, m')
     | (Some row, m') \<Rightarrow>
        (Some row,
         m'\<lparr>blocks := (blocks m')(row \<mapsto>
           \<lparr> count = cnt, stmt = st,
             bind = replicate cnt zero_bind,
             length_arr = replicate cnt 0,
             error_arr = replicate cnt False,
             is_null_arr = replicate cnt False \<rparr>)\<rparr>))"

definition set_param :: "row_t \<Rightarrow> nat \<Rightarrow> nat \<Rightarrow> nat \<Rightarrow> row_t" where
  "set_param r str len index =
    r\<lparr> length_arr := (length_arr r)[index := len],
       bind := (bind r)[index := (bind r ! index)
         \<lparr> length_ptr := Some index, buffer_length := len,
           buffer_type := MYSQL_TYPE_STRING, buffer := Some str \<rparr>] \<rparr>"

definition bind_result :: "row_t \<Rightarrow> nat \<Rightarrow> row_t" where
  "bind_result r index =
    r\<lparr> bind := (bind r)[index := (bind r ! index)
         \<lparr> buffer_type := MYSQL_TYPE_STRING, buffer := None, buffer_length := 0,
           is_null_ptr := Some index, length_ptr := Some index, error_ptr := Some index \<rparr>] \<rparr>"

definition destroy_row :: "nat option \<Rightarrow> memory \<Rightarrow> memory" where
  "destroy_row r m = (case r of None \<Rightarrow> m | Some row \<Rightarrow> m\<lparr>blocks := (blocks m)(row := None)\<rparr>)"

text \<open>Applying a function to the \<open>row_t\<close> a pointer designates.\<close>

definition at_row :: "nat \<Rightarrow> (row_t \<Rightarrow> row_t) \<Rightarrow> memory \<Rightarrow> memory" where
  "at_row row f m =
    (case blocks m row of None \<Rightarrow> m | Some r \<Rightarrow> m\<lparr>blocks := (blocks m)(row \<mapsto> f r)\<rparr>)"

subsection \<open>Prepared statements: execute\<close>

text \<open>
  The decimal text that \<open>%i\<close> and \<open>%u\<close> print. \<open>%u\<close> is given an
  \<open>unsigned long\<close> here and prints its low 32 bits.
\<close>

fun dec :: "nat \<Rightarrow> string" where
  "dec n = (if n < 10 then [''0123456789'' ! n] else dec (n div 10) @ [''0123456789'' ! (n mod 10)])"

declare dec.simps [simp del]

definition fmt_i :: "int \<Rightarrow> string" where
  "fmt_i i = (if i < 0 then ''-'' @ dec (nat (- i)) else dec (nat i))"

definition fmt_u :: "64 word \<Rightarrow> string" where
  "fmt_u v = dec (unat (ucast v :: 32 word))"

text \<open>
  What the statement handle answers during one \<open>execute\<close>, and the calls on the
  statement handle that the stub makes.
\<close>

record stmt_answers =
  mysql_stmt_param_count_v :: "64 word"
  mysql_stmt_bind_param_rc :: bool
  mysql_stmt_execute_rc :: int
  mysql_stmt_field_count_v :: "32 word"
  mysql_stmt_bind_result_rc :: bool

datatype stmt_api =
    Call_mysql_stmt_param_count | Call_mysql_stmt_bind_param | Call_mysql_stmt_execute
  | Call_mysql_stmt_field_count | Call_mysql_stmt_bind_result

definition Wosize_val :: "nat list \<Rightarrow> nat" where
  "Wosize_val params = length params"

text \<open>
  The second half of \<open>caml_mysql_stmt_execute\<close>, from
  \<open>len = mysql_stmt_field_count(...)\<close> on: the result row buffer. \<open>len\<close> is an
  \<open>int\<close>; \<open>create_row\<close> takes it as a \<open>size_t\<close>.
\<close>

definition execute_results ::
  "stmt_answers \<Rightarrow> nat \<Rightarrow> memory \<Rightarrow> (exn + nat) \<times> memory \<times> stmt_api list" where
  "execute_results a st m =
    (let len = mysql_stmt_field_count_v a in
     case create_row st (unat (scast len :: 64 word)) m of
       (None, m1) \<Rightarrow>
         (Inl (mysqlfailwith ''P.execute : create_row for results''), m1, [Call_mysql_stmt_field_count])
     | (Some row, m1) \<Rightarrow>
         if len \<noteq> 0 then
           let m2 = at_row row (\<lambda>r. foldl bind_result r [0..<nat (sint len)]) m1 in
           if mysql_stmt_bind_result_rc a
           then (Inl (mysqlfailwith ''P.execute : mysql_stmt_bind_result''),
                 destroy_row (Some row) m2, [Call_mysql_stmt_field_count, Call_mysql_stmt_bind_result])
           else (Inr row, m2, [Call_mysql_stmt_field_count, Call_mysql_stmt_bind_result])
         else (Inr row, m1, [Call_mysql_stmt_field_count]))"

text \<open>
  \<open>caml_mysql_stmt_execute\<close>: \<open>params\<close> is the OCaml array of the parameter
  strings (their addresses in the OCaml heap \<open>h\<close>), \<open>st\<close> the statement handle.
  \<open>int len = Wosize_val(params)\<close> keeps 32 bits; the comparison with the
  \<open>unsigned long\<close> parameter count converts \<open>len\<close> to 64 bits. The stub returns
  what it raises or the address of the result row buffer, the malloc heap, and the
  calls made.
\<close>

definition caml_mysql_stmt_execute ::
  "stmt_answers \<Rightarrow> caml_heap \<Rightarrow> nat \<Rightarrow> nat list \<Rightarrow> memory \<Rightarrow>
     (exn + nat) \<times> memory \<times> stmt_api list" where
  "caml_mysql_stmt_execute a h st params m =
    (let len = (word_of_nat (Wosize_val params) :: 32 word) in
     if (scast len :: 64 word) \<noteq> mysql_stmt_param_count_v a
     then (Inl (mysqlfailmsg (''P.execute : Got '' @ fmt_i (sint len) @
                  '' parameters, but expected '' @ fmt_u (mysql_stmt_param_count_v a))),
           m, [Call_mysql_stmt_param_count, Call_mysql_stmt_param_count])
     else
       (case create_row st (unat (scast len :: 64 word)) m of
          (None, m1) \<Rightarrow>
            (Inl (mysqlfailwith ''P.execute : create_row for params''), m1,
             [Call_mysql_stmt_param_count])
        | (Some row, m1) \<Rightarrow>
            let m2 = at_row row
                  (\<lambda>r. foldl (\<lambda>r i. set_param r (params ! i)
                                  (caml_string_length h (params ! i)) i)
                          r [0..<nat (sint len)]) m1
            in
            if mysql_stmt_bind_param_rc a
            then (Inl (mysqlfailwith ''P.execute : mysql_stmt_bind_param''),
                  destroy_row (Some row) m2,
                  [Call_mysql_stmt_param_count, Call_mysql_stmt_bind_param])
            else if mysql_stmt_execute_rc a \<noteq> 0
            then (Inl (mysqlfailwith ''P.execute : mysql_stmt_execute''),
                  destroy_row (Some row) m2,
                  [Call_mysql_stmt_param_count, Call_mysql_stmt_bind_param, Call_mysql_stmt_execute])
            else
              (case execute_results a st (destroy_row (Some row) m2) of
                 (v, m3, calls) \<Rightarrow>
                   (v, m3,
                    [Call_mysql_stmt_param_count, Call_mysql_stmt_bind_param, Call_mysql_stmt_execute]
                      @ calls))))"

subsection \<open>Prepared statements: fetch\<close>

text \<open>
  What the server delivers to one \<open>mysql_stmt_fetch\<close>: the return code and the
  columns of the row (\<open>None\<close> for SQL NULL). The library stores, through the pointers
  of every bound \<open>MYSQL_BIND\<close>, the length of the column, whether it is NULL, and
  whether it did not fit the bound buffer, which \<open>bind_result\<close> gave length 0.
\<close>

record fetch_answer =
  mysql_stmt_fetch_rc :: int
  columns :: "string option list"

definition deliver :: "row_t \<Rightarrow> string option \<times> MYSQL_BIND \<Rightarrow> row_t" where
  "deliver r cb =
    (let len = (case fst cb of None \<Rightarrow> 0 | Some d \<Rightarrow> length d);
         r1 = (case length_ptr (snd cb) of None \<Rightarrow> r
               | Some j \<Rightarrow> r\<lparr>length_arr := (length_arr r)[j := len]\<rparr>);
         r2 = (case is_null_ptr (snd cb) of None \<Rightarrow> r1
               | Some j \<Rightarrow> r1\<lparr>is_null_arr := (is_null_arr r1)[j := (fst cb = None)]\<rparr>)
     in (case error_ptr (snd cb) of None \<Rightarrow> r2
         | Some j \<Rightarrow> r2\<lparr>error_arr := (error_arr r2)[j := (0 < len)]\<rparr>))"

definition mysql_stmt_fetch :: "fetch_answer \<Rightarrow> row_t \<Rightarrow> int \<times> row_t" where
  "mysql_stmt_fetch a r = (mysql_stmt_fetch_rc a, foldl deliver r (zip (columns a) (bind r)))"

text \<open>
  \<open>mysql_stmt_fetch_column(stmt, bind, column, offset)\<close> of the library copies the
  data of the column, from \<open>offset\<close> on and at most \<open>buffer_length\<close> bytes, into the
  buffer of the one \<open>MYSQL_BIND\<close> its second argument points at.
\<close>

definition mysql_stmt_fetch_column ::
  "fetch_answer \<Rightarrow> MYSQL_BIND \<Rightarrow> nat \<Rightarrow> nat \<Rightarrow> caml_heap \<Rightarrow> caml_heap" where
  "mysql_stmt_fetch_column a my_bind column offset h =
    (if column < length (columns a) then
       (case columns a ! column of
          None \<Rightarrow> h
        | Some d \<Rightarrow>
           (case buffer my_bind of
              None \<Rightarrow> h
            | Some str \<Rightarrow>
               let new = map Some (take (buffer_length my_bind) (drop offset d))
               in h[str := new @ drop (length new) (h ! str)]))
     else h)"

text \<open>
  \<open>get_column\<close>: the local \<open>bind\<close> is \<open>&r->bind[index]\<close>; the call passes
  \<open>r->bind\<close>, the address of the first element of the array, to the library.
  The value returned is the address of the new string in \<open>Some\<close>, or \<open>None\<close>.
\<close>

definition get_column ::
  "fetch_answer \<Rightarrow> row_t \<Rightarrow> nat \<Rightarrow> caml_heap \<Rightarrow> nat option \<times> row_t \<times> caml_heap" where
  "get_column a r index h =
    (let len = length_arr r ! index in
     if len > 0 then
       (case caml_alloc_string len h of
          (str, h1) \<Rightarrow>
            let r1 = r\<lparr>bind := (bind r)[index := (bind r ! index)
                         \<lparr>buffer := Some str, buffer_length := len\<rparr>]\<rparr>;
                h2 = mysql_stmt_fetch_column a (bind r1 ! 0) index 0 h1
            in (Some str, r1, h2))
     else (None, r, h))"

text \<open>The loop of \<open>caml_mysql_stmt_fetch\<close> over the columns still to do.\<close>

fun get_columns ::
  "fetch_answer \<Rightarrow> nat list \<Rightarrow> row_t \<Rightarrow> caml_heap \<Rightarrow> nat option list \<times> row_t \<times> caml_heap" where
  "get_columns a [] r h = ([], r, h)"
| "get_columns a (i # todo) r h =
    (case get_column a r i h of
       (v, r1, h1) \<Rightarrow>
         (case get_columns a todo r1 h1 of (vs, r2, h2) \<Rightarrow> (v # vs, r2, h2)))"

text \<open>
  \<open>caml_mysql_stmt_fetch\<close>: \<open>truncated\<close> is the library's constant
  \<open>MYSQL_DATA_TRUNCATED\<close>. The array returned holds the addresses of the strings;
  \<open>row_value\<close> is the row the caller reads from it.
\<close>

definition caml_mysql_stmt_fetch ::
  "int \<Rightarrow> fetch_answer \<Rightarrow> row_t \<Rightarrow> caml_heap \<Rightarrow> nat option list option \<times> row_t \<times> caml_heap" where
  "caml_mysql_stmt_fetch truncated a r h =
    (case mysql_stmt_fetch a r of
       (res, r1) \<Rightarrow>
         if 0 \<noteq> res \<and> truncated \<noteq> res then (None, r1, h)
         else (case get_columns a [0..<count r1] r1 h of
                 (arr, r2, h2) \<Rightarrow> (Some arr, r2, h2)))"

definition row_value :: "caml_heap \<Rightarrow> nat option list \<Rightarrow> bytes option list" where
  "row_value h arr = map (map_option (\<lambda>str. h ! str)) arr"

text \<open>The result row buffer as \<open>caml_mysql_stmt_execute\<close> builds it for \<open>n\<close> columns.\<close>

definition result_row :: "nat \<Rightarrow> nat \<Rightarrow> row_t" where
  "result_row st n =
    foldl bind_result
      \<lparr> count = n, stmt = st, bind = replicate n zero_bind, length_arr = replicate n 0,
        error_arr = replicate n False, is_null_arr = replicate n False \<rparr>
      [0..<n]"

subsection \<open>Sample inputs\<close>

text \<open>
  A session whose last statement failed on a missing table, and an open connection on
  it; they serve as concrete inputs below.
\<close>

definition sample_session :: session where
  "sample_session =
    \<lparr> mysql_change_user_rc = False, mysql_select_db_rc = 0, mysql_ping_rc = 0,
      mysql_real_query_rc = 0, mysql_store_result_v = None, mysql_list_dbs_v = Some [''test''],
      mysql_errno_v = 1146, mysql_error_v = Some ''Table 't' doesn't exist'',
      mysql_affected_rows_v = 3, mysql_insert_id_v = 0,
      mysql_get_host_info_v = ''Localhost via UNIX socket'',
      mysql_get_server_info_v = ''5.0.51'', mysql_get_proto_info_v = 10,
      mysql_stmt_init_v = Some 8192, mysql_stmt_prepare_rc = 0 \<rparr>"

definition sample_dbd :: dbd where
  "sample_dbd = \<lparr> DBDmysql = 4096, DBDopen = True \<rparr>"

text \<open>A stored result of two columns and three rows, with a NULL and an empty value.\<close>

definition sample_res :: MYSQL_RES where
  "sample_res = \<lparr> field_count = 2,
      data = [[Some ''1'', Some ''ann''], [Some ''2'', None], [Some ''3'', Some []]],
      data_cursor = 0 \<rparr>"

text \<open>
  A statement of two parameters and two result columns for which every call succeeds,
  an empty malloc heap, and an OCaml heap that holds two parameter strings.
\<close>

definition sample_answers :: stmt_answers where
  "sample_answers =
    \<lparr> mysql_stmt_param_count_v = 2, mysql_stmt_bind_param_rc = False,
      mysql_stmt_execute_rc = 0, mysql_stmt_field_count_v = 2,
      mysql_stmt_bind_result_rc = False \<rparr>"

definition sample_memory :: memory where
  "sample_memory = \<lparr> blocks = Map.empty, brk = 1, failures = [] \<rparr>"

definition sample_heap :: caml_heap where
  "sample_heap = [map Some ''7'', map Some ''ann'']"

text \<open>The two return codes of \<open>mysql_stmt_fetch\<close> that the header \<open>mysql.h\<close> names.\<close>

definition MYSQL_NO_DATA :: int where
  "MYSQL_NO_DATA = 100"

definition MYSQL_DATA_TRUNCATED :: int where
  "MYSQL_DATA_TRUNCATED = 101"

section \<open>Properties\<close>

subsection \<open>The type mapper\<close>

lemma map_scan_sentinel:
  "- 1 \<notin> fst ` set tab \<Longrightarrow>
   map_scan (tab @ [(- 1, d)]) ty = Some (case map_of tab ty of None \<Rightarrow> d | Some c \<Rightarrow> c)"
  by (induction tab) auto

lemma type_map_split:
  "type_map wire = butlast (type_map wire) @ [(- 1, UNKNOWN_TY)]"
  by (simp add: type_map_def)

lemma type_map_keys:
  assumes "distinct (map fst (type_map wire))"
  shows "distinct (map fst (butlast (type_map wire)))"
    and "- 1 \<notin> fst ` set (butlast (type_map wire))"
proof -
  have "distinct (map fst (butlast (type_map wire) @ [(- 1, UNKNOWN_TY)]))"
    using assms type_map_split [of wire] by simp
  then show "distinct (map fst (butlast (type_map wire)))"
    and "- 1 \<notin> fst ` set (butlast (type_map wire))"
    by simp_all
qed

lemma type2dbty_lookup:
  assumes "distinct (map fst (type_map wire))"
  shows "type2dbty wire ty =
    Some (case map_of (butlast (type_map wire)) ty of None \<Rightarrow> UNKNOWN_TY | Some c \<Rightarrow> c)"
  unfolding type2dbty_def
  using map_scan_sentinel [OF type_map_keys(2) [OF assms], of UNKNOWN_TY ty]
    type_map_split [of wire]
  by simp

text \<open>
  C5. The mapper from wire codes to tags is a total function. Whatever numbers the
  header gives to the wire codes, as long as the keys of the table differ from each
  other and from the sentinel \<open>-1\<close>: every entry of the table maps its code to its tag,
  every code that is not in the table maps to \<open>UNKNOWN_TY\<close>, every code at all maps
  to some tag (the loop never reads past the table), the integer types narrower than
  64 bits (TINY, SHORT, INT24, LONG) map to \<open>INT_TY\<close>, LONGLONG maps to \<open>INT64_TY\<close>,
  and the four blob types map to \<open>BLOB_TY\<close>.
\<close>

theorem type2dbty_total_table:
  assumes "distinct (map fst (type_map wire))"
  shows "(\<forall>entry \<in> set (type_map wire). type2dbty wire (fst entry) = Some (snd entry))
    \<and> (\<forall>ty. ty \<notin> fst ` set (type_map wire) \<longrightarrow> type2dbty wire ty = Some UNKNOWN_TY)
    \<and> (\<forall>ty. \<exists>tag. type2dbty wire ty = Some tag)
    \<and> type2dbty wire (wire FIELD_TYPE_TINY) = Some INT_TY
    \<and> type2dbty wire (wire FIELD_TYPE_SHORT) = Some INT_TY
    \<and> type2dbty wire (wire FIELD_TYPE_INT24) = Some INT_TY
    \<and> type2dbty wire (wire FIELD_TYPE_LONG) = Some INT_TY
    \<and> type2dbty wire (wire FIELD_TYPE_LONGLONG) = Some INT64_TY
    \<and> type2dbty wire (wire FIELD_TYPE_TINY_BLOB) = Some BLOB_TY
    \<and> type2dbty wire (wire FIELD_TYPE_MEDIUM_BLOB) = Some BLOB_TY
    \<and> type2dbty wire (wire FIELD_TYPE_LONG_BLOB) = Some BLOB_TY
    \<and> type2dbty wire (wire FIELD_TYPE_BLOB) = Some BLOB_TY"
proof -
  note lookup = type2dbty_lookup [OF assms]
  have listed: "type2dbty wire (fst entry) = Some (snd entry)"
    if "entry \<in> set (type_map wire)" for entry
  proof (cases "entry \<in> set (butlast (type_map wire))")
    case True
    have "map_of (butlast (type_map wire)) (fst entry) = Some (snd entry)"
      using map_of_is_SomeI [OF type_map_keys(1) [OF assms], of "fst entry" "snd entry"] True
      by simp
    then show ?thesis by (simp add: lookup)
  next
    case False
    then have e: "entry = (- 1, UNKNOWN_TY)"
      using that type_map_split [of wire]
      by (metis Un_iff empty_iff empty_set set_ConsD set_append)
    have "map_of (butlast (type_map wire)) (- 1) = None"
      using type_map_keys(2) [OF assms]
      by (simp add: map_of_eq_None_iff)
    then show ?thesis by (simp add: lookup e)
  qed
  have unlisted: "type2dbty wire ty = Some UNKNOWN_TY"
    if "ty \<notin> fst ` set (type_map wire)" for ty
  proof -
    have "ty \<notin> fst ` set (butlast (type_map wire))"
      using that by (auto dest: in_set_butlastD)
    then have "map_of (butlast (type_map wire)) ty = None"
      by (simp add: map_of_eq_None_iff)
    then show ?thesis by (simp add: lookup)
  qed
  have total: "\<exists>tag. type2dbty wire ty = Some tag" for ty
    by (simp add: lookup)
  have mem: "(wire FIELD_TYPE_TINY, INT_TY) \<in> set (type_map wire)"
    "(wire FIELD_TYPE_SHORT, INT_TY) \<in> set (type_map wire)"
    "(wire FIELD_TYPE_INT24, INT_TY) \<in> set (type_map wire)"
    "(wire FIELD_TYPE_LONG, INT_TY) \<in> set (type_map wire)"
    "(wire FIELD_TYPE_LONGLONG, INT64_TY) \<in> set (type_map wire)"
    "(wire FIELD_TYPE_TINY_BLOB, BLOB_TY) \<in> set (type_map wire)"
    "(wire FIELD_TYPE_MEDIUM_BLOB, BLOB_TY) \<in> set (type_map wire)"
    "(wire FIELD_TYPE_LONG_BLOB, BLOB_TY) \<in> set (type_map wire)"
    "(wire FIELD_TYPE_BLOB, BLOB_TY) \<in> set (type_map wire)"
    by (simp_all add: type_map_def)
  show ?thesis
    using listed unlisted total mem [THEN listed] by simp
qed

text \<open>The table with the wire codes of the MySQL header: LONGLONG is 8, TINY is 1,
  BLOB is 252, and 246 (NEWDECIMAL) is not in the table.\<close>

theorem type2dbty_total_table_witness:
  "distinct (map fst (type_map mysql_com_h))
   \<and> type2dbty mysql_com_h 8 = Some INT64_TY
   \<and> type2dbty mysql_com_h 1 = Some INT_TY
   \<and> type2dbty mysql_com_h 252 = Some BLOB_TY
   \<and> type2dbty mysql_com_h 246 = Some UNKNOWN_TY"
proof -
  have keys: "distinct (map fst (type_map mysql_com_h))"
    by (simp add: type_map_def)
  have absent: "246 \<notin> fst ` set (type_map mysql_com_h)"
    by (simp add: type_map_def)
  show ?thesis
    using keys absent type2dbty_total_table [OF keys] by simp
qed

subsection \<open>Connections\<close>

text \<open>
  The stubs \<open>db_affected\<close>, \<open>db_insert_id\<close>, \<open>db_list_dbs\<close>, \<open>db_host_info\<close>,
  \<open>db_server_info\<close> and \<open>db_proto_info\<close> do not look at the open flag: on a
  descriptor whose flag is false each of them calls the client library with the handle
  stored in the descriptor.
\<close>

lemma unguarded_operations_on_closed_connection:
  "db_affected n (d\<lparr>DBDopen := False\<rparr>) =
      (Inr (mysql_affected_rows_v n), d\<lparr>DBDopen := False\<rparr>,
       [(Call_mysql_affected_rows, DBDmysql d)])
   \<and> db_insert_id n (d\<lparr>DBDopen := False\<rparr>) =
      (Inr (mysql_insert_id_v n), d\<lparr>DBDopen := False\<rparr>, [(Call_mysql_insert_id, DBDmysql d)])
   \<and> snd (snd (db_list_dbs n (d\<lparr>DBDopen := False\<rparr>))) = [(Call_mysql_list_dbs, DBDmysql d)]
   \<and> snd (snd (db_host_info n (d\<lparr>DBDopen := False\<rparr>))) = [(Call_mysql_get_host_info, DBDmysql d)]
   \<and> snd (snd (db_server_info n (d\<lparr>DBDopen := False\<rparr>))) =
        [(Call_mysql_get_server_info, DBDmysql d)]
   \<and> snd (snd (db_proto_info n (d\<lparr>DBDopen := False\<rparr>))) =
        [(Call_mysql_get_proto_info, DBDmysql d)]"
  by (simp add: db_affected_def db_insert_id_def db_list_dbs_def db_host_info_def
      db_server_info_def db_proto_info_def split: option.split)

text \<open>
  C1. Every connection operation other than disconnect and the status checks is
  guarded by the open flag and fails with a closed-connection error before the native
  session is touched. The code does otherwise for \<open>db_affected\<close>: after
  \<open>db_disconnect\<close> has closed the sample connection, \<open>db_affected\<close> raises nothing;
  it calls \<open>mysql_affected_rows\<close> with the word \<open>Val_false\<close> that
  \<open>db_disconnect\<close> left in place of the handle, and returns what the call answers.
\<close>

theorem db_affected_after_disconnect:
  "db_affected sample_session (fst (snd (db_disconnect sample_dbd))) =
     (Inr 3, \<lparr> DBDmysql = Val_false, DBDopen = False \<rparr>, [(Call_mysql_affected_rows, Val_false)])"
  by (simp add: db_affected_def db_disconnect_def check_dbd_def sample_session_def sample_dbd_def)

text \<open>\<open>check_dbd\<close> on a closed and on an open descriptor.\<close>

lemma check_dbd_closed:
  "\<not> DBDopen d \<Longrightarrow>
   check_dbd d fn = Some (mysqlfailmsg (''Mysql.'' @ fn @ '' called with closed connection''))"
  by (simp add: check_dbd_def)

lemma check_dbd_open: "DBDopen d \<Longrightarrow> check_dbd d fn = None"
  by (simp add: check_dbd_def)

text \<open>
  C4, as the code has it. \<open>db_disconnect\<close> on an open connection closes the native
  session once and marks the descriptor closed. On the descriptor so closed, a second
  \<open>db_disconnect\<close> is refused by \<open>check_dbd\<close>: it raises the closed-connection
  error, makes no call and leaves the descriptor as it is. The operations that call
  \<open>check_dbd\<close> (change_user, select_db, ping, exec, status, errmsg, P.prepare) are
  refused in the same way.
\<close>

theorem db_disconnect_closes_once:
  assumes "DBDopen d"
  shows "(let closed = d\<lparr>DBDmysql := Val_false, DBDopen := False\<rparr>;
            refusal = (\<lambda>fn. mysqlfailmsg (''Mysql.'' @ fn @ '' called with closed connection''))
        in db_disconnect d = (Inr (), closed, [(Call_mysql_close, DBDmysql d)])
         \<and> db_disconnect closed = (Inl (refusal ''disconnect''), closed, [])
         \<and> db_change_user n closed = (Inl (refusal ''change_user''), closed, [])
         \<and> db_select_db n closed = (Inl (refusal ''select_db''), closed, [])
         \<and> db_ping n closed = (Inl (refusal ''ping''), closed, [])
         \<and> db_exec n closed = (Inl (refusal ''exec''), closed, [])
         \<and> db_status n closed = (Inl (refusal ''status''), closed, [])
         \<and> db_errmsg n closed = (Inl (refusal ''errmsg''), closed, [])
         \<and> caml_mysql_stmt_prepare n closed = (Inl (refusal ''P.prepare''), closed, []))"
proof -
  have first: "db_disconnect d =
      (Inr (), d\<lparr>DBDmysql := Val_false, DBDopen := False\<rparr>, [(Call_mysql_close, DBDmysql d)])"
    using assms by (simp add: db_disconnect_def check_dbd_open)
  have closed: "\<not> DBDopen (d\<lparr>DBDmysql := Val_false, DBDopen := False\<rparr>)"
    by simp
  note c = check_dbd_closed [OF closed]
  have second: "db_disconnect (d\<lparr>DBDmysql := Val_false, DBDopen := False\<rparr>) =
      (Inl (mysqlfailmsg (''Mysql.'' @ ''disconnect'' @ '' called with closed connection'')),
       d\<lparr>DBDmysql := Val_false, DBDopen := False\<rparr>, [])"
    by (simp only: db_disconnect_def c option.case)
  show ?thesis
    unfolding Let_def
    by (simp only: first second c db_change_user_def db_select_db_def db_ping_def
        db_exec_def db_status_def db_errmsg_def caml_mysql_stmt_prepare_def option.case
        simp_thms)
qed

text \<open>The sample connection is open; closing it and pinging it afterwards.\<close>

theorem db_disconnect_closes_once_witness:
  "DBDopen sample_dbd
   \<and> db_disconnect sample_dbd =
       (Inr (), \<lparr> DBDmysql = Val_false, DBDopen = False \<rparr>, [(Call_mysql_close, 4096)])
   \<and> db_ping sample_session \<lparr> DBDmysql = Val_false, DBDopen = False \<rparr> =
       (Inl (Mysql_error ''Mysql.ping called with closed connection''),
        \<lparr> DBDmysql = Val_false, DBDopen = False \<rparr>, [])"
proof -
  have opened: "DBDopen sample_dbd"
    by (simp add: sample_dbd_def)
  show ?thesis
    using opened db_disconnect_closes_once [OF opened, of sample_session]
    by (simp add: sample_dbd_def Let_def mysqlfailmsg_def)
qed

text \<open>
  C4 as stated says that a second disconnect is a safe no-op. On the sample connection
  the second \<open>db_disconnect\<close> raises instead of returning unit.
\<close>

theorem db_disconnect_twice_counterexample:
  "db_disconnect (fst (snd (db_disconnect sample_dbd))) =
     (Inl (Mysql_error ''Mysql.disconnect called with closed connection''),
      \<lparr> DBDmysql = Val_false, DBDopen = False \<rparr>, [])
   \<and> fst (db_disconnect (fst (snd (db_disconnect sample_dbd)))) \<noteq> Inr ()"
  by (simp add: db_disconnect_def check_dbd_def sample_dbd_def mysqlfailmsg_def)

text \<open>
  C10. On an open connection \<open>db_errmsg\<close> asks the session for its error text once
  and returns \<open>None\<close> exactly when the text is absent (a null pointer) or empty;
  otherwise it returns \<open>Some\<close> of the whole text. It never returns \<open>Some\<close> of the
  empty string.
\<close>

theorem db_errmsg_none_iff_empty:
  assumes "DBDopen d"
  shows "db_errmsg n d =
      (Inr (case mysql_error_v n of None \<Rightarrow> None
            | Some m \<Rightarrow> if m = [] then None else Some m),
       d, [(Call_mysql_error, DBDmysql d)])
    \<and> (fst (db_errmsg n d) = Inr None \<longleftrightarrow>
         mysql_error_v n = None \<or> mysql_error_v n = Some [])
    \<and> fst (db_errmsg n d) \<noteq> Inr (Some [])"
  using assms
  by (auto simp: db_errmsg_def check_dbd_open val_str_option_def strlen_def Let_def
      split: option.splits)

text \<open>The sample session has an error text; with an empty text the result is \<open>None\<close>.\<close>

theorem db_errmsg_none_iff_empty_witness:
  "DBDopen sample_dbd
   \<and> fst (db_errmsg sample_session sample_dbd) = Inr (Some ''Table 't' doesn't exist'')
   \<and> fst (db_errmsg (sample_session\<lparr>mysql_error_v := Some []\<rparr>) sample_dbd) = Inr None"
proof -
  have opened: "DBDopen sample_dbd"
    by (simp add: sample_dbd_def)
  show ?thesis
    using opened db_errmsg_none_iff_empty [OF opened, of sample_session]
      db_errmsg_none_iff_empty [OF opened, of "sample_session\<lparr>mysql_error_v := Some []\<rparr>"]
    by (simp add: sample_session_def)
qed

subsection \<open>Stored results\<close>

text \<open>Signed readings of 64-bit words that are in range.\<close>

lemma sint_word_of_int_fits:
  assumes "- (2 ^ 63) \<le> k" "k < 2 ^ 63"
  shows "sint (word_of_int k :: 64 word) = k"
  using assms by (simp add: sint_sbintrunc' signed_take_bit_int_eq_self)

lemma sint_num_rows_pred:
  assumes "n < 2 ^ 63"
  shows "sint ((word_of_nat n :: 64 word) - 1) = int n - 1"
proof -
  have "(word_of_nat n :: 64 word) - 1 = word_of_int (int n - 1)"
    by simp
  moreover have "sint (word_of_int (int n - 1) :: 64 word) = int n - 1"
    using assms by (intro sint_word_of_int_fits) auto
  ultimately show ?thesis by simp
qed

lemma uint_of_nonneg_sint:
  assumes "0 \<le> sint (off :: 64 word)"
  shows "uint off = sint off"
proof -
  have s: "sint off = (uint off + 2 ^ 63) mod 2 ^ 64 - 2 ^ 63"
    using int_word_sint [of "uint off", where 'a = 64] by simp
  have lo: "0 \<le> uint off" by simp
  have hi: "uint off < 2 ^ 64"
    using uint_bounded [of off] by simp
  show ?thesis
  proof (cases "uint off < 2 ^ 63")
    case True
    then have "(uint off + 2 ^ 63) mod 2 ^ 64 = uint off + 2 ^ 63"
      using lo by (intro mod_pos_pos_trivial) auto
    then show ?thesis using s by simp
  next
    case False
    then have "(uint off + 2 ^ 63) mod 2 ^ 64 = uint off + 2 ^ 63 - 2 ^ 64"
      using hi by (simp add: mod_pos_geq)
    then have "sint off < 0" using s hi by simp
    then show ?thesis using assms by simp
  qed
qed

lemma unat_of_nonneg_sint:
  assumes "0 \<le> sint (off :: 64 word)"
  shows "unat off = nat (sint off)"
proof -
  have "nat (uint off) = nat (sint off)"
    by (simp only: uint_of_nonneg_sint [OF assms])
  then show ?thesis by simp
qed

text \<open>Without a result handle \<open>db_to_row\<close> fails before it looks at the offset.\<close>

lemma db_to_row_without_result:
  "db_to_row None off =
    (Inl (mysqlfailwith ''Mysql.to_row: result did not return fetchable data''), None)"
  by (simp add: db_to_row_def)

text \<open>
  C6, as the code has it. For a result with a handle and \<open>N\<close> rows (\<open>N\<close> below
  \<open>2^63\<close>, so that the cast of the row count to \<open>int64\<close> keeps its value),
  \<open>db_to_row\<close> with offset \<open>off\<close> succeeds and puts the cursor on row \<open>off\<close>
  exactly when \<open>0 \<le> off < N\<close>; otherwise it raises \<open>Invalid_argument\<close> and leaves
  the result alone. In particular the offsets \<open>N\<close> and \<open>-1\<close> are refused. For a
  result without a handle \<open>db_to_row\<close> raises the error "result did not return
  fetchable data" at every offset.
\<close>

theorem db_to_row_in_range:
  assumes "length (data res) < 2 ^ 63"
  shows "db_to_row (Some res) off =
      (if 0 \<le> sint off \<and> sint off < int (length (data res))
       then (Inr (), Some (res\<lparr>data_cursor := nat (sint off)\<rparr>))
       else (Inl (invalid_argument ''Mysql.to_row: offset out of range''), Some res))
    \<and> fst (db_to_row (Some res) (word_of_nat (length (data res)))) =
        Inl (invalid_argument ''Mysql.to_row: offset out of range'')
    \<and> fst (db_to_row (Some res) (- 1)) =
        Inl (invalid_argument ''Mysql.to_row: offset out of range'')
    \<and> db_to_row None off =
        (Inl (mysqlfailwith ''Mysql.to_row: result did not return fetchable data''), None)"
proof -
  let ?n = "length (data res)"
  have check: "(off <s 0 \<or> mysql_num_rows res - 1 <s off) \<longleftrightarrow>
      \<not> (0 \<le> sint off \<and> sint off < int ?n)" for off
    using sint_num_rows_pred [OF assms]
    by (auto simp: word_sless_alt mysql_num_rows_def)
  have seek: "mysql_data_seek res off = res\<lparr>data_cursor := nat (sint off)\<rparr>"
    if "0 \<le> sint off" "sint off < int ?n"
    using that unat_of_nonneg_sint [of off]
    by (simp add: mysql_data_seek_def min_def)
  have general: "db_to_row (Some res) off =
      (if 0 \<le> sint off \<and> sint off < int ?n
       then (Inr (), Some (res\<lparr>data_cursor := nat (sint off)\<rparr>))
       else (Inl (invalid_argument ''Mysql.to_row: offset out of range''), Some res))"
    using check [of off] seek by (simp add: db_to_row_def)
  have "sint (word_of_nat ?n :: 64 word) = int ?n"
    using sint_word_of_int_fits [of "int ?n"] assms by simp
  then have at_n: "fst (db_to_row (Some res) (word_of_nat ?n)) =
      Inl (invalid_argument ''Mysql.to_row: offset out of range'')"
    using check [of "word_of_nat ?n"] by (simp add: db_to_row_def)
  have at_minus_1: "fst (db_to_row (Some res) (- 1)) =
      Inl (invalid_argument ''Mysql.to_row: offset out of range'')"
    by (simp add: db_to_row_def)
  show ?thesis
    using general at_n at_minus_1 db_to_row_without_result [of off] by simp
qed

text \<open>The sample result has three rows: offset 2 is accepted, 3 and -1 are refused.\<close>

theorem db_to_row_in_range_witness:
  "length (data sample_res) < 2 ^ 63
   \<and> db_to_row (Some sample_res) 2 = (Inr (), Some (sample_res\<lparr>data_cursor := 2\<rparr>))
   \<and> fst (db_to_row (Some sample_res) 3) = Inl (Invalid_argument ''Mysql.to_row: offset out of range'')
   \<and> fst (db_to_row (Some sample_res) (- 1)) = Inl (Invalid_argument ''Mysql.to_row: offset out of range'')"
proof -
  have small: "length (data sample_res) < 2 ^ 63"
    by (simp add: sample_res_def)
  have n: "length (data sample_res) = 3"
    by (simp add: sample_res_def)
  show ?thesis
    using small db_to_row_in_range [OF small, of 2] db_to_row_in_range [OF small, of 3]
    by (simp add: n invalid_argument_def)
qed

text \<open>
  C6 as stated says that on every result of \<open>N\<close> rows an offset that is not below
  \<open>N\<close> is refused with the range error. A result without a handle has size 0, and
  offset 0 on it is refused with the other error.
\<close>

theorem db_to_row_without_result_counterexample:
  "db_size None = 0
   \<and> fst (db_to_row None 0) =
       Inl (Mysql_error ''Mysql.to_row: result did not return fetchable data'')
   \<and> fst (db_to_row None 0) \<noteq> Inl (Invalid_argument ''Mysql.to_row: offset out of range'')"
  by (simp add: db_size_def db_to_row_def mysqlfailwith_def)

text \<open>The loop of \<open>db_fetch\<close> copies every column of the row with its own length.\<close>

lemma copy_fields:
  "map (\<lambda>i. val_str_option (row ! i) (mysql_fetch_lengths row ! i)) [0..<length row] = row"
  by (rule nth_equalityI)
    (auto simp: val_str_option_def mysql_fetch_lengths_def split: option.split)

text \<open>
  C7. \<open>db_fetch\<close> on a stored result: without a result handle, or with a handle of
  zero columns, it raises the no-result error. Otherwise, while the cursor is on a row
  (of as many columns as the result has), it returns that row, column by column
  \<open>None\<close> for SQL NULL and \<open>Some\<close> of the bytes otherwise, and moves the cursor
  on by one; once the cursor is past the last row it returns \<open>None\<close>.
\<close>

theorem db_fetch_next_row:
  "db_fetch None =
      (Inl (mysqlfailwith ''Mysql.fetch: result did not return fetchable data''), None)
   \<and> (field_count res = 0 \<longrightarrow>
        db_fetch (Some res) = (Inl (mysqlfailwith ''Mysql.fetch: no columns''), Some res))
   \<and> (field_count res \<noteq> 0 \<and> data_cursor res < length (data res)
        \<and> length (data res ! data_cursor res) = field_count res \<longrightarrow>
        db_fetch (Some res) =
          (Inr (Some (data res ! data_cursor res)),
           Some (res\<lparr>data_cursor := Suc (data_cursor res)\<rparr>)))
   \<and> (field_count res \<noteq> 0 \<and> length (data res) \<le> data_cursor res \<longrightarrow>
        db_fetch (Some res) = (Inr None, Some res))"
proof -
  have no_result: "db_fetch None =
      (Inl (mysqlfailwith ''Mysql.fetch: result did not return fetchable data''), None)"
    by (simp add: db_fetch_def)
  have no_columns: "db_fetch (Some res) =
      (Inl (mysqlfailwith ''Mysql.fetch: no columns''), Some res)"
    if "field_count res = 0"
    using that by (simp add: db_fetch_def mysql_num_fields_def)
  have next_row: "db_fetch (Some res) =
      (Inr (Some (data res ! data_cursor res)),
       Some (res\<lparr>data_cursor := Suc (data_cursor res)\<rparr>))"
    if "field_count res \<noteq> 0" "data_cursor res < length (data res)"
      "length (data res ! data_cursor res) = field_count res"
    using that copy_fields [of "data res ! data_cursor res"]
    by (simp add: db_fetch_def mysql_num_fields_def mysql_fetch_row_def Let_def)
  have exhausted: "db_fetch (Some res) = (Inr None, Some res)"
    if "field_count res \<noteq> 0" "length (data res) \<le> data_cursor res"
    using that by (simp add: db_fetch_def mysql_num_fields_def mysql_fetch_row_def)
  show ?thesis
    using no_result no_columns next_row exhausted by blast
qed

text \<open>
  The sample result: the second row has a NULL; at cursor 3 the rows are exhausted;
  a handle without columns is refused.
\<close>

theorem db_fetch_next_row_witness:
  "fst (db_fetch (Some (sample_res\<lparr>data_cursor := 1\<rparr>))) = Inr (Some [Some ''2'', None])
   \<and> snd (db_fetch (Some (sample_res\<lparr>data_cursor := 1\<rparr>))) = Some (sample_res\<lparr>data_cursor := 2\<rparr>)
   \<and> fst (db_fetch (Some (sample_res\<lparr>data_cursor := 3\<rparr>))) = Inr None
   \<and> fst (db_fetch (Some (sample_res\<lparr>field_count := 0, data := []\<rparr>))) =
        Inl (Mysql_error ''Mysql.fetch: no columns'')"
  using db_fetch_next_row [of "sample_res\<lparr>data_cursor := 1\<rparr>"]
    db_fetch_next_row [of "sample_res\<lparr>data_cursor := 3\<rparr>"]
    db_fetch_next_row [of "sample_res\<lparr>field_count := 0, data := []\<rparr>"]
  by (simp add: sample_res_def mysqlfailwith_def)

subsection \<open>Prepared statements: execute\<close>

text \<open>
  The length of a parameter array below \<open>2^31\<close> survives the assignment to the
  \<open>int\<close> \<open>len\<close> and the conversion to \<open>unsigned long\<close>.
\<close>

lemma sint_param_len:
  assumes "n < 2 ^ 31"
  shows "sint (word_of_nat n :: 32 word) = int n"
proof -
  have "sint (word_of_int (int n) :: 32 word) = signed_take_bit 31 (int n)"
    using sint_sbintrunc' [of "int n", where 'a = 32] by simp
  also have "\<dots> = int n"
    using assms by (intro signed_take_bit_int_eq_self) auto
  finally show ?thesis by simp
qed

lemma scast_param_len:
  assumes "n < 2 ^ 31"
  shows "(scast (word_of_nat n :: 32 word) :: 64 word) = word_of_nat n"
  by (simp add: scast_eq sint_param_len [OF assms])

lemma unat_param_len:
  assumes "n < 2 ^ 31"
  shows "unat (word_of_nat n :: 64 word) = n"
  using assms by (simp add: unat_of_nat)

lemma param_len_eq_iff:
  assumes "n < 2 ^ 31"
  shows "(word_of_nat n :: 64 word) = p \<longleftrightarrow> n = unat p"
proof
  assume "(word_of_nat n :: 64 word) = p"
  then show "n = unat p"
    using unat_param_len [OF assms] by auto
next
  assume "n = unat p"
  then show "(word_of_nat n :: 64 word) = p" by simp
qed

text \<open>\<open>%u\<close> prints an \<open>unsigned long\<close> below \<open>2^32\<close> in full.\<close>

lemma fmt_u_small:
  assumes "unat p < 2 ^ 32"
  shows "fmt_u p = dec (unat p)"
proof -
  have "unat (ucast p :: 32 word) = take_bit 32 (unat p)"
    using unsigned_ucast_eq [of p, where 'c = 32 and 'a = nat] by simp
  also have "\<dots> = unat p"
    using assms by (intro take_bit_nat_eq_self) auto
  finally have "unat (ucast p :: 32 word) = unat p" .
  then show ?thesis by (simp add: fmt_u_def)
qed

text \<open>
  C3, as the code has it. Let the statement declare \<open>P\<close> parameters. For every
  parameter array of fewer than \<open>2^31\<close> elements (so that its length fits the
  \<open>int\<close> \<open>len\<close>) whose length differs from \<open>P\<close>,
  \<open>caml_mysql_stmt_execute\<close> raises the error whose message carries the actual
  length and the expected count \<open>P\<close> in decimal, leaves the malloc heap as it was,
  and has called nothing but \<open>mysql_stmt_param_count\<close>, which reads the count stored
  in the handle: no \<open>mysql_stmt_bind_param\<close> and no \<open>mysql_stmt_execute\<close>.
\<close>

theorem execute_param_count_mismatch:
  assumes "length params < 2 ^ 31"
    and "length params \<noteq> unat (mysql_stmt_param_count_v a)"
  shows "caml_mysql_stmt_execute a h st params m =
      (Inl (mysqlfailmsg (''P.execute : Got '' @ dec (length params) @
              '' parameters, but expected '' @ fmt_u (mysql_stmt_param_count_v a))),
       m, [Call_mysql_stmt_param_count, Call_mysql_stmt_param_count])
    \<and> (unat (mysql_stmt_param_count_v a) < 2 ^ 32 \<longrightarrow>
         fmt_u (mysql_stmt_param_count_v a) = dec (unat (mysql_stmt_param_count_v a)))
    \<and> Call_mysql_stmt_bind_param \<notin> set (snd (snd (caml_mysql_stmt_execute a h st params m)))
    \<and> Call_mysql_stmt_execute \<notin> set (snd (snd (caml_mysql_stmt_execute a h st params m)))"
proof -
  have differ: "(scast (word_of_nat (length params) :: 32 word) :: 64 word)
      \<noteq> mysql_stmt_param_count_v a"
    using assms by (simp add: scast_param_len param_len_eq_iff)
  have "fmt_i (sint (word_of_nat (length params) :: 32 word)) = dec (length params)"
    using assms(1) by (simp add: sint_param_len fmt_i_def)
  then have raised: "caml_mysql_stmt_execute a h st params m =
      (Inl (mysqlfailmsg (''P.execute : Got '' @ dec (length params) @
              '' parameters, but expected '' @ fmt_u (mysql_stmt_param_count_v a))),
       m, [Call_mysql_stmt_param_count, Call_mysql_stmt_param_count])"
    using differ by (simp add: caml_mysql_stmt_execute_def Wosize_val_def Let_def)
  show ?thesis
    by (simp add: raised fmt_u_small)
qed

text \<open>One parameter given to the sample statement, which declares two.\<close>

theorem execute_param_count_mismatch_witness:
  "length [0 :: nat] < 2 ^ 31
   \<and> length [0 :: nat] \<noteq> unat (mysql_stmt_param_count_v sample_answers)
   \<and> caml_mysql_stmt_execute sample_answers sample_heap 8192 [0] sample_memory =
       (Inl (Mysql_error ''P.execute : Got 1 parameters, but expected 2''), sample_memory,
        [Call_mysql_stmt_param_count, Call_mysql_stmt_param_count])"
proof -
  have len: "length [0 :: nat] < 2 ^ 31"
    by simp
  have differ: "length [0 :: nat] \<noteq> unat (mysql_stmt_param_count_v sample_answers)"
    by (simp add: sample_answers_def)
  have shown: "dec (Suc 0) = ''1''" "dec 2 = ''2''" "fmt_u 2 = ''2''"
    by (simp_all add: fmt_u_def dec.simps)
  show ?thesis
    using len differ execute_param_count_mismatch [OF len differ, of sample_heap 8192 sample_memory]
    by (simp add: shown sample_answers_def mysqlfailmsg_def)
qed

text \<open>
  C3 as stated speaks of every parameter list whose length differs from \<open>P\<close>. The
  length is kept in an \<open>int\<close>: a list of \<open>2^32 + 2\<close> parameters given to the
  sample statement, which declares two, passes the comparison, and the stub goes on to
  bind and execute.
\<close>

theorem execute_long_list_counterexample:
  "length (replicate (2 ^ 32 + 2) (0 :: nat)) \<noteq> unat (mysql_stmt_param_count_v sample_answers)
   \<and> fst (caml_mysql_stmt_execute sample_answers sample_heap 8192
          (replicate (2 ^ 32 + 2) 0) sample_memory) = Inr 2
   \<and> snd (snd (caml_mysql_stmt_execute sample_answers sample_heap 8192
          (replicate (2 ^ 32 + 2) 0) sample_memory)) =
       [Call_mysql_stmt_param_count, Call_mysql_stmt_bind_param, Call_mysql_stmt_execute,
        Call_mysql_stmt_field_count, Call_mysql_stmt_bind_result]"
proof -
  define params where "params = replicate (2 ^ 32 + 2) (0 :: nat)"
  let ?fill = "\<lambda>r. foldl (\<lambda>r i. set_param r (params ! i)
                  (caml_string_length sample_heap (params ! i)) i) r [0..<2]"
  let ?m1 = "\<lparr> blocks = [1 \<mapsto> \<lparr> count = 2, stmt = 8192, bind = replicate 2 zero_bind,
                 length_arr = replicate 2 0, error_arr = replicate 2 False,
                 is_null_arr = replicate 2 False \<rparr>], brk = 2, failures = [] \<rparr>"
  let ?m3 = "destroy_row (Some 1) (at_row 1 ?fill ?m1)"
  have n: "Wosize_val params = 2 ^ 32 + 2"
    by (simp add: params_def Wosize_val_def)
  have len: "(word_of_nat (Wosize_val params) :: 32 word) = 2"
    unfolding n by simp
  have differ: "length params \<noteq> unat (mysql_stmt_param_count_v sample_answers)"
    by (simp add: params_def sample_answers_def)
  have same: "mysql_stmt_param_count_v sample_answers = 2"
    by (simp add: sample_answers_def)
  have two: "nat (sint (2 :: 32 word)) = 2"
    using sint_param_len [of 2] by simp
  have made: "create_row 8192 2 sample_memory = (Some 1, ?m1)"
    by (simp add: create_row_def malloc_def sample_memory_def)
  have ok: "\<not> mysql_stmt_bind_param_rc sample_answers" "mysql_stmt_execute_rc sample_answers = 0"
    by (simp_all add: sample_answers_def)
  have run: "caml_mysql_stmt_execute sample_answers sample_heap 8192 params sample_memory =
      (fst (execute_results sample_answers 8192 ?m3),
       fst (snd (execute_results sample_answers 8192 ?m3)),
       [Call_mysql_stmt_param_count, Call_mysql_stmt_bind_param, Call_mysql_stmt_execute]
         @ snd (snd (execute_results sample_answers 8192 ?m3)))"
    unfolding caml_mysql_stmt_execute_def len Let_def
    by (simp add: same two made ok split_beta)
  have results: "fst (execute_results sample_answers 8192 m) = Inr 2
      \<and> snd (snd (execute_results sample_answers 8192 m)) =
          [Call_mysql_stmt_field_count, Call_mysql_stmt_bind_result]"
    if "brk m = 2" "failures m = []" for m
    using that
    by (simp add: execute_results_def create_row_def malloc_def sample_answers_def Let_def)
  have m: "brk ?m3 = 2" "failures ?m3 = []"
    by (simp_all add: destroy_row_def at_row_def)
  show ?thesis
    using differ results [OF m]
    unfolding params_def [symmetric] run
    by simp
qed

text \<open>What \<open>malloc\<close>, \<open>create_row\<close>, \<open>at_row\<close> and \<open>destroy_row\<close> do to the heap.\<close>

lemma malloc_cases:
  "(\<exists>m1. malloc m = (None, m1) \<and> blocks m1 = blocks m \<and> brk m1 = brk m)
   \<or> (\<exists>m1. malloc m = (Some (brk m), m1) \<and> blocks m1 = blocks m \<and> brk m1 = Suc (brk m))"
  by (auto simp: malloc_def split: list.split bool.split)

lemma create_row_cases:
  "(\<exists>m1. create_row st cnt m = (None, m1) \<and> blocks m1 = blocks m \<and> brk m1 = brk m)
   \<or> (\<exists>m1 r. create_row st cnt m = (Some (brk m), m1)
          \<and> blocks m1 = (blocks m)(brk m \<mapsto> r) \<and> brk m1 = Suc (brk m))"
  using malloc_cases [of m] by (auto simp: create_row_def)

lemma create_row_Some:
  assumes "fst (malloc m) = Some p"
  shows "\<exists>m1 r. create_row st cnt m = (Some p, m1) \<and> p = brk m
          \<and> blocks m1 = (blocks m)(p \<mapsto> r) \<and> brk m1 = Suc p"
  using assms malloc_cases [of m] by (auto simp: create_row_def)

lemma blocks_at_row:
  "blocks (at_row row f m) x = (if x = row then map_option f (blocks m row) else blocks m x)"
  by (simp add: at_row_def split: option.split)

lemma brk_at_row: "brk (at_row row f m) = brk m"
  by (simp add: at_row_def split: option.split)

lemma blocks_destroy_row: "blocks (destroy_row (Some row) m) = (blocks m)(row := None)"
  by (simp add: destroy_row_def)

lemma brk_destroy_row: "brk (destroy_row r m) = brk m"
  by (simp add: destroy_row_def split: option.split)

text \<open>The second half of execute touches no block but the one it allocates.\<close>

lemma execute_results_frame:
  assumes "x \<noteq> brk m"
  shows "blocks (fst (snd (execute_results a st m))) x = blocks m x"
  using create_row_cases [of st "unat (scast (mysql_stmt_field_count_v a) :: 64 word)" m] assms
  by (auto simp: execute_results_def Let_def blocks_at_row blocks_destroy_row)

text \<open>
  C9. Let the parameter count match and let \<open>malloc\<close> give the parameter row buffer
  the address \<open>p\<close>. Whatever happens next, \<open>p\<close> is not allocated any more when
  \<open>caml_mysql_stmt_execute\<close> returns or raises. If \<open>mysql_stmt_bind_param\<close> fails,
  the stub raises the bind error having freed \<open>p\<close>; if binding succeeds and
  \<open>mysql_stmt_execute\<close> fails, it raises the execute error having freed \<open>p\<close>;
  if both succeed, \<open>p\<close> is freed before the result row buffer is set up.
\<close>

theorem execute_releases_param_row:
  assumes "length params < 2 ^ 31"
    and "unat (mysql_stmt_param_count_v a) = length params"
    and "fst (malloc m) = Some p"
  shows "blocks (fst (snd (caml_mysql_stmt_execute a h st params m))) p = None
    \<and> (mysql_stmt_bind_param_rc a \<longrightarrow>
         fst (caml_mysql_stmt_execute a h st params m) =
           Inl (mysqlfailwith ''P.execute : mysql_stmt_bind_param'')
         \<and> blocks (fst (snd (caml_mysql_stmt_execute a h st params m))) = (blocks m)(p := None)
         \<and> snd (snd (caml_mysql_stmt_execute a h st params m)) =
             [Call_mysql_stmt_param_count, Call_mysql_stmt_bind_param])
    \<and> (\<not> mysql_stmt_bind_param_rc a \<and> mysql_stmt_execute_rc a \<noteq> 0 \<longrightarrow>
         fst (caml_mysql_stmt_execute a h st params m) =
           Inl (mysqlfailwith ''P.execute : mysql_stmt_execute'')
         \<and> blocks (fst (snd (caml_mysql_stmt_execute a h st params m))) = (blocks m)(p := None)
         \<and> snd (snd (caml_mysql_stmt_execute a h st params m)) =
             [Call_mysql_stmt_param_count, Call_mysql_stmt_bind_param, Call_mysql_stmt_execute])
    \<and> (\<not> mysql_stmt_bind_param_rc a \<and> mysql_stmt_execute_rc a = 0 \<longrightarrow>
         (\<exists>m3. blocks m3 = (blocks m)(p := None)
            \<and> caml_mysql_stmt_execute a h st params m =
                (fst (execute_results a st m3), fst (snd (execute_results a st m3)),
                 [Call_mysql_stmt_param_count, Call_mysql_stmt_bind_param, Call_mysql_stmt_execute]
                   @ snd (snd (execute_results a st m3)))))"
proof -
  let ?len = "word_of_nat (length params) :: 32 word"
  let ?fill = "\<lambda>r. foldl (\<lambda>r i. set_param r (params ! i) (caml_string_length h (params ! i)) i)
                  r [0..<nat (sint ?len)]"
  have same: "(scast ?len :: 64 word) = mysql_stmt_param_count_v a"
    using assms(1,2) by (simp add: scast_param_len param_len_eq_iff)
  obtain m1 r where created:
    "create_row st (unat (scast ?len :: 64 word)) m = (Some p, m1)"
    "p = brk m" "blocks m1 = (blocks m)(p \<mapsto> r)" "brk m1 = Suc p"
    using create_row_Some [OF assms(3)] by blast
  let ?m2 = "at_row p ?fill m1"
  let ?m3 = "destroy_row (Some p) ?m2"
  have freed: "blocks ?m3 = (blocks m)(p := None)"
    by (rule ext) (simp add: blocks_destroy_row blocks_at_row created(3))
  have brk3: "brk ?m3 = Suc p"
    by (simp add: brk_destroy_row brk_at_row created(4))
  have unfolded: "caml_mysql_stmt_execute a h st params m =
      (if mysql_stmt_bind_param_rc a
       then (Inl (mysqlfailwith ''P.execute : mysql_stmt_bind_param''), ?m3,
             [Call_mysql_stmt_param_count, Call_mysql_stmt_bind_param])
       else if mysql_stmt_execute_rc a \<noteq> 0
       then (Inl (mysqlfailwith ''P.execute : mysql_stmt_execute''), ?m3,
             [Call_mysql_stmt_param_count, Call_mysql_stmt_bind_param, Call_mysql_stmt_execute])
       else (fst (execute_results a st ?m3), fst (snd (execute_results a st ?m3)),
             [Call_mysql_stmt_param_count, Call_mysql_stmt_bind_param, Call_mysql_stmt_execute]
               @ snd (snd (execute_results a st ?m3))))"
    using same created(1)
    by (simp add: caml_mysql_stmt_execute_def Wosize_val_def Let_def split: prod.split)
  have after: "blocks (fst (snd (execute_results a st ?m3))) p = None"
    using execute_results_frame [of p ?m3 a st] brk3 freed by simp
  have released: "blocks (fst (snd (caml_mysql_stmt_execute a h st params m))) p = None"
    using after freed by (simp add: unfolded)
  have on_bind: "mysql_stmt_bind_param_rc a \<longrightarrow>
         fst (caml_mysql_stmt_execute a h st params m) =
           Inl (mysqlfailwith ''P.execute : mysql_stmt_bind_param'')
         \<and> blocks (fst (snd (caml_mysql_stmt_execute a h st params m))) = (blocks m)(p := None)
         \<and> snd (snd (caml_mysql_stmt_execute a h st params m)) =
             [Call_mysql_stmt_param_count, Call_mysql_stmt_bind_param]"
    using freed by (simp add: unfolded)
  have on_execute: "\<not> mysql_stmt_bind_param_rc a \<and> mysql_stmt_execute_rc a \<noteq> 0 \<longrightarrow>
         fst (caml_mysql_stmt_execute a h st params m) =
           Inl (mysqlfailwith ''P.execute : mysql_stmt_execute'')
         \<and> blocks (fst (snd (caml_mysql_stmt_execute a h st params m))) = (blocks m)(p := None)
         \<and> snd (snd (caml_mysql_stmt_execute a h st params m)) =
             [Call_mysql_stmt_param_count, Call_mysql_stmt_bind_param, Call_mysql_stmt_execute]"
    using freed by (simp add: unfolded)
  have on_success: "\<not> mysql_stmt_bind_param_rc a \<and> mysql_stmt_execute_rc a = 0 \<longrightarrow>
         (\<exists>m3. blocks m3 = (blocks m)(p := None)
            \<and> caml_mysql_stmt_execute a h st params m =
                (fst (execute_results a st m3), fst (snd (execute_results a st m3)),
                 [Call_mysql_stmt_param_count, Call_mysql_stmt_bind_param, Call_mysql_stmt_execute]
                   @ snd (snd (execute_results a st m3))))"
    using freed unfolded by auto
  show ?thesis
    using released on_bind on_execute on_success by blast
qed

text \<open>The sample statement with a failing \<open>mysql_stmt_execute\<close>, binding having succeeded.\<close>

theorem execute_releases_param_row_witness:
  "length [0 :: nat, 1] < 2 ^ 31
   \<and> unat (mysql_stmt_param_count_v (sample_answers\<lparr>mysql_stmt_execute_rc := 1\<rparr>)) =
       length [0 :: nat, 1]
   \<and> fst (malloc sample_memory) = Some 1
   \<and> fst (caml_mysql_stmt_execute (sample_answers\<lparr>mysql_stmt_execute_rc := 1\<rparr>)
          sample_heap 8192 [0, 1] sample_memory) =
       Inl (Mysql_error ''P.execute : mysql_stmt_execute'')
   \<and> blocks (fst (snd (caml_mysql_stmt_execute (sample_answers\<lparr>mysql_stmt_execute_rc := 1\<rparr>)
          sample_heap 8192 [0, 1] sample_memory))) 1 = None"
proof -
  let ?a = "sample_answers\<lparr>mysql_stmt_execute_rc := 1\<rparr>"
  have len: "length [0 :: nat, 1] < 2 ^ 31"
    by simp
  have same: "unat (mysql_stmt_param_count_v ?a) = length [0 :: nat, 1]"
    by (simp add: sample_answers_def)
  have got: "fst (malloc sample_memory) = Some 1"
    by (simp add: malloc_def sample_memory_def)
  have failing: "\<not> mysql_stmt_bind_param_rc ?a \<and> mysql_stmt_execute_rc ?a \<noteq> 0"
    by (simp add: sample_answers_def)
  show ?thesis
    using len same got failing
      execute_releases_param_row [OF len same got, of sample_heap 8192]
    by (simp add: mysqlfailwith_def)
qed

subsection \<open>Prepared statements: fetch\<close>

text \<open>The column count of the row buffer is fixed; the loop makes one entry per column.\<close>

lemma count_deliver: "count (deliver r cb) = count r"
  by (simp add: deliver_def Let_def split: option.split)

lemma count_mysql_stmt_fetch: "count (snd (mysql_stmt_fetch a r)) = count r"
proof -
  have "count (foldl deliver r xs) = count r" for xs
    by (induction xs arbitrary: r) (simp_all add: count_deliver)
  then show ?thesis by (simp add: mysql_stmt_fetch_def)
qed

lemma length_get_columns: "length (fst (get_columns a todo r h)) = length todo"
proof (induction todo arbitrary: r h)
  case Nil
  show ?case by simp
next
  case (Cons i todo)
  obtain v r1 h1 where one: "get_column a r i h = (v, r1, h1)"
    by (cases "get_column a r i h")
  obtain vs r2 h2 where rest: "get_columns a todo r1 h1 = (vs, r2, h2)"
    by (cases "get_columns a todo r1 h1")
  have "length vs = length todo"
    using Cons.IH [of r1 h1] rest by simp
  then show ?case
    by (simp add: one rest)
qed

text \<open>
  C8. When \<open>mysql_stmt_fetch\<close> returns a code that is neither 0 nor
  \<open>MYSQL_DATA_TRUNCATED\<close> (end of data, or any error), \<open>caml_mysql_stmt_fetch\<close>
  returns \<open>None\<close>: it raises nothing, allocates nothing and returns no partial row.
  When the code is 0 or \<open>MYSQL_DATA_TRUNCATED\<close> it returns \<open>Some\<close> of an array with
  one entry per column of the row buffer.
\<close>

theorem stmt_fetch_none_unless_row:
  "(mysql_stmt_fetch_rc a \<noteq> 0 \<and> mysql_stmt_fetch_rc a \<noteq> truncated \<longrightarrow>
      fst (caml_mysql_stmt_fetch truncated a r h) = None
      \<and> snd (snd (caml_mysql_stmt_fetch truncated a r h)) = h)
   \<and> (mysql_stmt_fetch_rc a = 0 \<or> mysql_stmt_fetch_rc a = truncated \<longrightarrow>
      (\<exists>arr. fst (caml_mysql_stmt_fetch truncated a r h) = Some arr \<and> length arr = count r))"
proof -
  have rc: "fst (mysql_stmt_fetch a r) = mysql_stmt_fetch_rc a"
    by (simp add: mysql_stmt_fetch_def)
  have none: "fst (caml_mysql_stmt_fetch truncated a r h) = None
      \<and> snd (snd (caml_mysql_stmt_fetch truncated a r h)) = h"
    if "mysql_stmt_fetch_rc a \<noteq> 0" "mysql_stmt_fetch_rc a \<noteq> truncated"
    using that rc by (auto simp: caml_mysql_stmt_fetch_def split: prod.split)
  have row: "\<exists>arr. fst (caml_mysql_stmt_fetch truncated a r h) = Some arr \<and> length arr = count r"
    if "mysql_stmt_fetch_rc a = 0 \<or> mysql_stmt_fetch_rc a = truncated"
  proof -
    let ?r1 = "snd (mysql_stmt_fetch a r)"
    have "fst (caml_mysql_stmt_fetch truncated a r h) =
        Some (fst (get_columns a [0..<count ?r1] ?r1 h))"
      using that rc by (auto simp: caml_mysql_stmt_fetch_def split: prod.split)
    then show ?thesis
      by (simp add: length_get_columns count_mysql_stmt_fetch)
  qed
  show ?thesis
    using none row by blast
qed

text \<open>End of data gives \<open>None\<close>; a truncated fetch of two columns gives a row of two.\<close>

theorem stmt_fetch_none_unless_row_witness:
  "fst (caml_mysql_stmt_fetch MYSQL_DATA_TRUNCATED
          \<lparr> mysql_stmt_fetch_rc = MYSQL_NO_DATA, columns = [] \<rparr> (result_row 8192 2) []) = None
   \<and> (\<exists>arr. fst (caml_mysql_stmt_fetch MYSQL_DATA_TRUNCATED
          \<lparr> mysql_stmt_fetch_rc = MYSQL_DATA_TRUNCATED, columns = [Some ''ab'', None] \<rparr>
          (result_row 8192 2) []) = Some arr \<and> length arr = 2)"
proof -
  have n: "count (result_row 8192 2) = 2"
    by code_simp
  show ?thesis
    using stmt_fetch_none_unless_row [of "\<lparr> mysql_stmt_fetch_rc = MYSQL_NO_DATA, columns = [] \<rparr>"
        MYSQL_DATA_TRUNCATED "result_row 8192 2" "[]"]
      stmt_fetch_none_unless_row [of
        "\<lparr> mysql_stmt_fetch_rc = MYSQL_DATA_TRUNCATED, columns = [Some ''ab'', None] \<rparr>"
        MYSQL_DATA_TRUNCATED "result_row 8192 2" "[]"]
    by (simp add: n MYSQL_NO_DATA_def MYSQL_DATA_TRUNCATED_def)
qed

text \<open>
  C2. Every column of positive length is refetched into a buffer of exactly its length,
  and the entry is \<open>Some\<close> of the bytes of that column. The code does otherwise from
  the second column on: \<open>get_column\<close> passes \<open>r->bind\<close>, the bind of column 0, to
  \<open>mysql_stmt_fetch_column\<close>. For a row of the two columns \<open>ab\<close> and \<open>cd\<close> the
  caller gets \<open>cd\<close> in the string of column 0, and for column 1 a string of two bytes
  that were never written.
\<close>

theorem stmt_fetch_second_column_lost:
  "(case caml_mysql_stmt_fetch MYSQL_DATA_TRUNCATED
          \<lparr> mysql_stmt_fetch_rc = MYSQL_DATA_TRUNCATED, columns = [Some ''ab'', Some ''cd''] \<rparr>
          (result_row 8192 2) [] of
      (v, r, h) \<Rightarrow> map_option (row_value h) v) =
    Some [Some (map Some ''cd''), Some [None, None]]"
  by code_simp

text \<open>
  The parts of \<open>get_column\<close> that do not depend on the buffer passed to the library:
  a column of length zero gives \<open>None\<close>, a longer one gives a new string.
\<close>

lemma get_column_zero_length:
  "length_arr r ! index = 0 \<Longrightarrow> get_column a r index h = (None, r, h)"
  by (simp add: get_column_def)

lemma get_column_allocates:
  "0 < length_arr r ! index \<Longrightarrow>
   fst (get_column a r index h) = Some (length h)
   \<and> length (snd (snd (get_column a r index h))) = Suc (length h)"
  by (simp add: get_column_def caml_alloc_string_def mysql_stmt_fetch_column_def Let_def
      split: option.split)

subsection \<open>From execute to fetch\<close>

text \<open>
  A column count below \<open>2^31\<close> survives the assignment to the \<open>int\<close> \<open>len\<close>.
  When execute succeeds, the row buffer it hands to fetch is \<open>result_row\<close>.
\<close>

lemma field_count_as_int:
  assumes "unat (n :: 32 word) < 2 ^ 31"
  shows "nat (sint n) = unat n" and "unat (scast n :: 64 word) = unat n"
proof -
  have n: "n = word_of_nat (unat n)"
    by simp
  have s: "sint n = int (unat n)"
    using sint_param_len [OF assms] by simp
  show "nat (sint n) = unat n"
    by (simp add: s)
  have "(scast n :: 64 word) = word_of_nat (unat n)"
    using scast_param_len [OF assms] by simp
  then show "unat (scast n :: 64 word) = unat n"
    using unat_param_len [OF assms] by simp
qed

lemma execute_results_row:
  assumes "fst (malloc m) = Some q"
    and "\<not> mysql_stmt_bind_result_rc a"
    and "unat (mysql_stmt_field_count_v a) < 2 ^ 31"
  shows "fst (execute_results a st m) = Inr q
    \<and> blocks (fst (snd (execute_results a st m))) q =
        Some (result_row st (unat (mysql_stmt_field_count_v a)))"
proof -
  let ?n = "unat (mysql_stmt_field_count_v a)"
  obtain m1 where m: "malloc m = (Some q, m1)"
    using assms(1) by (cases "malloc m") simp
  show ?thesis
  proof (cases "mysql_stmt_field_count_v a = 0")
    case True
    then show ?thesis
      by (simp add: execute_results_def create_row_def m result_row_def)
  next
    case False
    then show ?thesis
      using assms(2) field_count_as_int [OF assms(3)]
      by (simp add: execute_results_def create_row_def m at_row_def result_row_def Let_def)
  qed
qed

text \<open>
  For column 0 the bind that \<open>get_column\<close> prepares and the bind it passes to the
  library are the same, and the new string receives the bytes of the column.
\<close>

lemma get_column_first:
  assumes "columns a = Some d # others"
    and "length_arr r ! 0 = length d"
    and "0 < length d"
    and "bind r \<noteq> []"
  shows "fst (get_column a r 0 h) = Some (length h)
    \<and> snd (snd (get_column a r 0 h)) ! length h = map Some d"
  using assms
  by (simp add: get_column_def caml_alloc_string_def mysql_stmt_fetch_column_def Let_def
      nth_append)

end
